theory Spec2Isabelle
  imports Complex_Main "HOL-Library.Sublist" "HOL-Library.Char_ord" "HOL-Library.List_Lexorder"
begin

section \<open>Python values used by SEC.py\<close>

text \<open>
  Strings are ASCII texts, one \<^typ>\<open>char\<close> per character; Python's Unicode case mapping
  and Unicode digits are outside this model. Python compares strings by code point,
  which is the lexicographic order of \<^typ>\<open>string\<close> given by the two order theories
  imported above.
\<close>

definition is_space :: "char \<Rightarrow> bool" where
  "is_space c = (let n = (of_char c :: int) in (9 \<le> n \<and> n \<le> 13) \<or> (28 \<le> n \<and> n \<le> 32))"

definition upper_char :: "char \<Rightarrow> char" where
  "upper_char c = (let n = (of_char c :: int) in if 97 \<le> n \<and> n \<le> 122 then char_of (n - 32) else c)"

definition lower_char :: "char \<Rightarrow> char" where
  "lower_char c = (let n = (of_char c :: int) in if 65 \<le> n \<and> n \<le> 90 then char_of (n + 32) else c)"

text \<open>\<^verbatim>\<open>str.upper()\<close>, \<^verbatim>\<open>str.lower()\<close> and \<^verbatim>\<open>str.strip()\<close>.\<close>

definition upper :: "string \<Rightarrow> string" where
  "upper s = map upper_char s"

definition lower :: "string \<Rightarrow> string" where
  "lower s = map lower_char s"

definition strip :: "string \<Rightarrow> string" where
  "strip s = rev (dropWhile is_space (rev (dropWhile is_space s)))"

text \<open>\<^verbatim>\<open>needle in haystack\<close> on strings: the needle starts at some position.\<close>

definition startswith :: "string \<Rightarrow> string \<Rightarrow> bool" where
  "startswith h n = (take (length n) h = n)"

fun py_in :: "string \<Rightarrow> string \<Rightarrow> bool" where
  "py_in n [] = (n = [])"
| "py_in n (c # cs) = (startswith (c # cs) n \<or> py_in n cs)"

text \<open>\<^verbatim>\<open>str(n)\<close> of an integer and \<^verbatim>\<open>s.zfill(width)\<close>, which pads after a leading sign.\<close>

definition digit_char :: "int \<Rightarrow> char" where
  "digit_char d = char_of (48 + d)"

function str_digits :: "int \<Rightarrow> string" where
  "str_digits n = (if n < 10 then [digit_char n] else str_digits (n div 10) @ [digit_char (n mod 10)])"
  by pat_completeness auto
termination
  by (relation "measure nat") auto

definition str_int :: "int \<Rightarrow> string" where
  "str_int i = (if i < 0 then CHR ''-'' # str_digits (- i) else str_digits i)"

definition zfill :: "nat \<Rightarrow> string \<Rightarrow> string" where
  "zfill w s =
     (if w \<le> length s then s
      else case s of
        c # cs \<Rightarrow>
          if c = CHR ''+'' \<or> c = CHR ''-''
          then c # replicate (w - length s) CHR ''0'' @ cs
          else replicate (w - length s) CHR ''0'' @ s
      | [] \<Rightarrow> replicate w CHR ''0'')"

text \<open>
  A parsed JSON document (\<^verbatim>\<open>resp.json()\<close>). An object keeps its members in document
  order, as a Python dict does; \<open>d[k]\<close> and \<open>d.get(k)\<close> are \<^const>\<open>map_of\<close>. Numbers
  are integers, as the USD amounts of the facts API are.
\<close>

datatype json =
  JNull | JBool bool | JInt int | JStr string | JArr "json list" | JObj "(string \<times> json) list"

text \<open>The exceptions that can leave the three functions.\<close>

datatype exn = RequestException | JSONDecodeError | TypeError | AttributeError | KeyError | ValueError

text \<open>
  What \<^verbatim>\<open>requests.get\<close> gives: it raises, or it returns a response with a status code and
  a body; \<^verbatim>\<open>resp.json()\<close> raises when the body is not JSON (\<open>None\<close>).
\<close>

datatype 'a fetched = ConnectionFailed | Response (status_code: int) (body: "'a option")

section \<open>Dates: \<^verbatim>\<open>datetime.strptime(s, "%Y-%m-%d")\<close>\<close>

record date =
  year :: int
  month :: int
  day :: int

definition is_digit :: "char \<Rightarrow> bool" where
  "is_digit c = (let n = (of_char c :: int) in 48 \<le> n \<and> n \<le> 57)"

definition is_digit19 :: "char \<Rightarrow> bool" where
  "is_digit19 c = (let n = (of_char c :: int) in 49 \<le> n \<and> n \<le> 57)"

definition digit_val :: "char \<Rightarrow> int" where
  "digit_val c = of_char c - 48"

text \<open>
  The library turns the format into the regular expression
  \<^verbatim>\<open>(\d\d\d\d)-(1[0-2]|0[1-9]|[1-9])-(3[0-1]|[1-2]\d|0[1-9]|[1-9]| [1-9])\<close>,
  matches it at the start of the string and raises ValueError when text is left over.
  So the month is the text up to the second dash, the day is all the rest, and
  neither needs its leading zero.
\<close>

fun parse_month :: "string \<Rightarrow> (int \<times> string) option" where
  "parse_month (a # b # c # rest) =
     (if a = CHR ''1'' \<and> b \<in> {CHR ''0'', CHR ''1'', CHR ''2''} \<and> c = CHR ''-''
        then Some (10 + digit_val b, rest)
      else if a = CHR ''0'' \<and> is_digit19 b \<and> c = CHR ''-'' then Some (digit_val b, rest)
      else if is_digit19 a \<and> b = CHR ''-'' then Some (digit_val a, c # rest)
      else None)"
| "parse_month [a, b] = (if is_digit19 a \<and> b = CHR ''-'' then Some (digit_val a, []) else None)"
| "parse_month _ = None"

fun parse_day :: "string \<Rightarrow> int option" where
  "parse_day [a] = (if is_digit19 a then Some (digit_val a) else None)"
| "parse_day [a, b] =
     (if a = CHR ''3'' \<and> b \<in> {CHR ''0'', CHR ''1''} then Some (30 + digit_val b)
      else if a \<in> {CHR ''1'', CHR ''2''} \<and> is_digit b then Some (10 * digit_val a + digit_val b)
      else if a = CHR ''0'' \<and> is_digit19 b then Some (digit_val b)
      else if a = CHR '' '' \<and> is_digit19 b then Some (digit_val b)
      else None)"
| "parse_day _ = None"

definition is_leap :: "int \<Rightarrow> bool" where
  "is_leap y = (y mod 4 = 0 \<and> (y mod 100 \<noteq> 0 \<or> y mod 400 = 0))"

definition days_in_month :: "int \<Rightarrow> int \<Rightarrow> int" where
  "days_in_month y m =
     (if m = 2 then (if is_leap y then 29 else 28)
      else if m \<in> {4, 6, 9, 11} then 30 else 31)"

text \<open>The constructor \<^verbatim>\<open>datetime(y, m, d)\<close> raises ValueError outside these ranges.\<close>

definition make_date :: "int \<Rightarrow> int \<Rightarrow> int \<Rightarrow> date option" where
  "make_date y m d =
     (if 1 \<le> y \<and> y \<le> 9999 \<and> 1 \<le> m \<and> m \<le> 12 \<and> 1 \<le> d \<and> d \<le> days_in_month y m
      then Some \<lparr>year = y, month = m, day = d\<rparr> else None)"

fun strptime :: "string \<Rightarrow> date option" where
  "strptime (y1 # y2 # y3 # y4 # dash # rest) =
     (if is_digit y1 \<and> is_digit y2 \<and> is_digit y3 \<and> is_digit y4 \<and> dash = CHR ''-'' then
        (case parse_month rest of
           None \<Rightarrow> None
         | Some (m, rest') \<Rightarrow>
             (case parse_day rest' of
                None \<Rightarrow> None
              | Some d \<Rightarrow>
                  make_date (1000 * digit_val y1 + 100 * digit_val y2 + 10 * digit_val y3 + digit_val y4) m d))
      else None)"
| "strptime _ = None"

text \<open>\<^verbatim>\<open>date.toordinal()\<close>: day 1 is 0001-01-01; \<open>(e - s).days\<close> is the difference.\<close>

definition days_before_year :: "int \<Rightarrow> int" where
  "days_before_year y = (let p = y - 1 in p * 365 + p div 4 - p div 100 + p div 400)"

definition days_before_month :: "int \<Rightarrow> int \<Rightarrow> int" where
  "days_before_month y m =
     [0, 31, 59, 90, 120, 151, 181, 212, 243, 273, 304, 334] ! nat (m - 1)
       + (if m > 2 \<and> is_leap y then 1 else 0)"

definition toordinal :: "date \<Rightarrow> int" where
  "toordinal dt = days_before_year (year dt) + days_before_month (year dt) (month dt) + day dt"

definition days_between :: "date \<Rightarrow> date \<Rightarrow> int" where
  "days_between s e = toordinal e - toordinal s"

section \<open>Fetching one concept: \<^verbatim>\<open>get_financial_data\<close>\<close>

text \<open>\<open>d[k]\<close> on a parsed document: KeyError on a missing key, TypeError on a non-dict.\<close>

definition subscript :: "json \<Rightarrow> string \<Rightarrow> exn + json" where
  "subscript j k =
     (case j of
        JObj d \<Rightarrow> (case map_of d k of None \<Rightarrow> Inl KeyError | Some v \<Rightarrow> Inr v)
      | _ \<Rightarrow> Inl TypeError)"

text \<open>\<open>u.get(k)\<close> on a dict; \<open>None\<close> is Python's None.\<close>

definition dict_get :: "json \<Rightarrow> string \<Rightarrow> json option" where
  "dict_get j k = (case j of JObj d \<Rightarrow> map_of d k | _ \<Rightarrow> None)"

text \<open>Python truth value of a parsed document (\<open>if not units\<close>).\<close>

definition truthy :: "json \<Rightarrow> bool" where
  "truthy j =
     (case j of
        JNull \<Rightarrow> False | JBool b \<Rightarrow> b | JInt i \<Rightarrow> i \<noteq> 0 | JStr s \<Rightarrow> s \<noteq> []
      | JArr xs \<Rightarrow> xs \<noteq> [] | JObj d \<Rightarrow> d \<noteq> [])"

text \<open>
  The nested \<^verbatim>\<open>is_full_year\<close>: its bare \<^verbatim>\<open>except\<close> turns a missing key, a value that
  is not a string and a string that does not parse into \<open>False\<close>.
\<close>

definition is_full_year :: "json \<Rightarrow> bool" where
  "is_full_year item =
     (case dict_get item ''start'' of
        Some (JStr s) \<Rightarrow>
          (case strptime s of
             None \<Rightarrow> False
           | Some start_date \<Rightarrow>
               (case dict_get item ''end'' of
                  Some (JStr e) \<Rightarrow>
                    (case strptime e of
                       None \<Rightarrow> False
                     | Some end_date \<Rightarrow> days_between start_date end_date \<ge> 300)
                | _ \<Rightarrow> False))
      | _ \<Rightarrow> False)"

text \<open>The condition of the list comprehension, for an element that is a dict.\<close>

definition admitted :: "json \<Rightarrow> bool" where
  "admitted u =
     (dict_get u ''form'' = Some (JStr ''10-K'') \<and> dict_get u ''fp'' = Some (JStr ''FY'')
      \<and> is_full_year u)"

text \<open>
  The comprehension \<^verbatim>\<open>[u for u in units if ...]\<close>: \<open>u.get\<close> raises AttributeError on an
  element that is not a dict, and the exception leaves the function.
\<close>

fun ten_k_units :: "json list \<Rightarrow> exn + json list" where
  "ten_k_units [] = Inr []"
| "ten_k_units (u # us) =
     (case u of
        JObj d \<Rightarrow>
          (if admitted u
           then (case ten_k_units us of Inl e \<Rightarrow> Inl e | Inr r \<Rightarrow> Inr (u # r))
           else ten_k_units us)
      | _ \<Rightarrow> Inl AttributeError)"

text \<open>
  The sort key \<^verbatim>\<open>x.get("end", "")\<close>. Every element that reaches the sort passed
  \<^const>\<open>is_full_year\<close>, so its \<open>end\<close> is a string.
\<close>

definition end_key :: "json \<Rightarrow> string" where
  "end_key x = (case dict_get x ''end'' of Some (JStr e) \<Rightarrow> e | _ \<Rightarrow> [])"

text \<open>
  \<^verbatim>\<open>sorted(xs, key=..., reverse=True)\<close> is stable: CPython reverses, sorts ascending and
  reverses again, so equal keys keep their input order.
\<close>

definition sorted_reverse :: "('a \<Rightarrow> 'k::linorder) \<Rightarrow> 'a list \<Rightarrow> 'a list" where
  "sorted_reverse f xs = rev (sort_key f (rev xs))"

text \<open>The slice \<open>xs[:k]\<close>; a negative \<open>k\<close> counts from the end.\<close>

definition slice_to :: "int \<Rightarrow> 'a list \<Rightarrow> 'a list" where
  "slice_to k xs = (if 0 \<le> k then take (nat k) xs else take (length xs - nat (- k)) xs)"

text \<open>
  The deduplication loop, with its two variables as accumulators. The test for
  \<open>final_count\<close> comes after the append, and is an equality.
\<close>

fun dedup_loop ::
  "json list \<Rightarrow> json list \<Rightarrow> (json option \<times> json option) set \<Rightarrow> int \<Rightarrow> json list" where
  "dedup_loop [] unique_records seen final_count = unique_records"
| "dedup_loop (item # rest) unique_records seen final_count =
     (let start_end = (dict_get item ''start'', dict_get item ''end'');
          unique_records' = (if start_end \<notin> seen then unique_records @ [item] else unique_records);
          seen' = (if start_end \<notin> seen then insert start_end seen else seen)
      in if int (length unique_records') = final_count then unique_records'
         else dedup_loop rest unique_records' seen' final_count)"

type_synonym result = "json list option \<times> string option"

text \<open>Everything after \<open>units\<close> has been read from the document.\<close>

definition from_units :: "string \<Rightarrow> json \<Rightarrow> int \<Rightarrow> int \<Rightarrow> exn + result" where
  "from_units concept units fetch_count final_count =
     (if \<not> truthy units then Inr (None, Some (''No '' @ concept @ '' (USD) data found''))
      else case units of
        JArr us \<Rightarrow>
          (case ten_k_units us of
             Inl e \<Rightarrow> Inl e
           | Inr ten_k \<Rightarrow>
               (if ten_k = [] then Inr (None, Some (''No 10-K full-year data found for '' @ concept))
                else
                  (let sorted_units = slice_to fetch_count (sorted_reverse end_key ten_k)
                   in Inr (Some (dedup_loop sorted_units [] {} final_count), None))))
      | JObj d \<Rightarrow> Inl AttributeError
      | JStr s \<Rightarrow> Inl AttributeError
      | _ \<Rightarrow> Inl TypeError)"

definition get_financial_data ::
  "(string \<Rightarrow> (string \<times> string) list \<Rightarrow> json fetched) \<Rightarrow> string \<Rightarrow> string \<Rightarrow> string \<Rightarrow> int \<Rightarrow> int
     \<Rightarrow> exn + result" where
  "get_financial_data requests_get cik_10digit concept user_agent fetch_count final_count =
     (let url = ''https://data.sec.gov/api/xbrl/companyconcept/'' @ cik_10digit @ ''/us-gaap/''
                  @ concept @ ''.json'';
          headers = [(''User-Agent'', user_agent), (''Accept-Encoding'', ''gzip, deflate''),
                     (''Host'', ''data.sec.gov'')]
      in case requests_get url headers of
           ConnectionFailed \<Rightarrow> Inl RequestException
         | Response status b \<Rightarrow>
             if status \<noteq> 200
             then Inr (None, Some (''Request failed (status '' @ str_int status @ '') for '' @ concept))
             else case b of
               None \<Rightarrow> Inl JSONDecodeError
             | Some data \<Rightarrow>
                 (case subscript data ''units'' of
                    Inl e \<Rightarrow>
                      (if e = KeyError then Inr (None, Some (''USD unit not found for '' @ concept))
                       else Inl e)
                  | Inr un \<Rightarrow>
                      (case subscript un ''USD'' of
                         Inl e \<Rightarrow>
                           (if e = KeyError then Inr (None, Some (''USD unit not found for '' @ concept))
                            else Inl e)
                       | Inr units \<Rightarrow> from_units concept units fetch_count final_count)))"

text \<open>
  The pair the loop remembers, and the list the loop keeps from its input when nothing
  stops it: the first element of each pair not seen before.
\<close>

definition start_end :: "json \<Rightarrow> json option \<times> json option" where
  "start_end item = (dict_get item ''start'', dict_get item ''end'')"

fun first_seen :: "(json option \<times> json option) set \<Rightarrow> json list \<Rightarrow> json list" where
  "first_seen S [] = []"
| "first_seen S (x # xs) =
     (if start_end x \<in> S then first_seen S xs else x # first_seen (insert (start_end x) S) xs)"

text \<open>The document the facts API sends for a list of USD facts.\<close>

definition usd_document :: "json list \<Rightarrow> json" where
  "usd_document us = JObj [(''units'', JObj [(''USD'', JArr us)])]"

definition is_dict :: "json \<Rightarrow> bool" where
  "is_dict j = (case j of JObj d \<Rightarrow> True | _ \<Rightarrow> False)"

text \<open>
  The responses on which \<^const>\<open>get_financial_data\<close> is meant to work: any status other
  than 200, or a JSON object whose \<open>units\<close>, when present, is an object whose \<open>USD\<close>, when
  present, is empty or a list of objects.
\<close>

definition well_shaped :: "json fetched \<Rightarrow> bool" where
  "well_shaped r =
     (case r of
        ConnectionFailed \<Rightarrow> False
      | Response status b \<Rightarrow>
          status \<noteq> 200 \<or>
          (case b of
             Some (JObj d) \<Rightarrow>
               (case map_of d ''units'' of
                  None \<Rightarrow> True
                | Some (JObj d2) \<Rightarrow>
                    (case map_of d2 ''USD'' of
                       None \<Rightarrow> True
                     | Some (JArr us) \<Rightarrow> list_all is_dict us
                     | Some v \<Rightarrow> \<not> truthy v)
                | Some _ \<Rightarrow> False)
           | _ \<Rightarrow> False))"

text \<open>A network that answers every request with the same response.\<close>

definition serve :: "'a fetched \<Rightarrow> string \<Rightarrow> (string \<times> string) list \<Rightarrow> 'a fetched" where
  "serve r url headers = r"

text \<open>The part of a document that \<open>data["units"]["USD"]\<close> reads, when both keys are there.\<close>

definition usd_facts :: "json \<Rightarrow> json option" where
  "usd_facts data =
     (case data of
        JObj d \<Rightarrow> (case map_of d ''units'' of Some (JObj d2) \<Rightarrow> map_of d2 ''USD'' | _ \<Rightarrow> None)
      | _ \<Rightarrow> None)"

text \<open>A record has no date under a key: the key is missing, or its value does not parse.\<close>

definition no_date :: "json \<Rightarrow> string \<Rightarrow> bool" where
  "no_date u k = (case dict_get u k of Some (JStr s) \<Rightarrow> strptime s = None | _ \<Rightarrow> True)"

text \<open>A fact of an annual report, as the API sends it.\<close>

definition annual_fact :: "string \<Rightarrow> string \<Rightarrow> int \<Rightarrow> json" where
  "annual_fact s e v =
     JObj [(''start'', JStr s), (''end'', JStr e), (''val'', JInt v), (''form'', JStr ''10-K''),
           (''fp'', JStr ''FY'')]"

definition thirty_one_facts :: "json list" where
  "thirty_one_facts =
     replicate 30 (annual_fact ''2022-01-01'' ''2022-12-31'' 7) @ [annual_fact ''2021-01-01'' ''2021-12-31'' 5]"

definition three_facts :: "json list" where
  "three_facts =
     [annual_fact ''2020-01-01'' ''2020-12-31'' 5, annual_fact ''2021-01-01'' ''2021-12-31'' 6,
      annual_fact ''2020-01-01'' ''2020-12-31'' 7]"


text \<open>
  The calendar, independently of ordinals: the dates of the Gregorian calendar and the
  day after a date.
\<close>

definition valid_date :: "date \<Rightarrow> bool" where
  "valid_date d = (1 \<le> month d \<and> month d \<le> 12 \<and> 1 \<le> day d \<and> day d \<le> days_in_month (year d) (month d))"

definition next_day :: "date \<Rightarrow> date" where
  "next_day d =
     (if day d < days_in_month (year d) (month d) then d\<lparr>day := day d + 1\<rparr>
      else if month d < 12 then d\<lparr>month := month d + 1, day := 1\<rparr>
      else \<lparr>year = year d + 1, month = 1, day = 1\<rparr>)"

section \<open>The entity snapshot: names, tickers and CIK numbers\<close>

text \<open>One value of \<^verbatim>\<open>company_tickers.json\<close>, with the types the SEC document has.\<close>

record entity =
  title :: string
  ticker :: string
  cik_str :: int

definition SYNONYMS :: "(string \<times> string) list" where
  "SYNONYMS = [(''google'', ''alphabet inc''), (''nvidia'', ''nvidia corporation'')]"

fun matched_tickers_loop :: "string \<Rightarrow> entity list \<Rightarrow> string list \<Rightarrow> string list" where
  "matched_tickers_loop name_upper [] matched_tickers = matched_tickers"
| "matched_tickers_loop name_upper (info # rest) matched_tickers =
     (let title_upper = upper (title info)
      in matched_tickers_loop name_upper rest
           (if py_in name_upper title_upper then matched_tickers @ [ticker info]
            else matched_tickers))"

definition get_ticker_from_company_name ::
  "(string \<Rightarrow> (string \<times> string) list \<Rightarrow> (string \<times> entity) list fetched) \<Rightarrow> string \<Rightarrow> string
     \<Rightarrow> exn + string list" where
  "get_ticker_from_company_name requests_get company_name user_agent =
     (let name_lower = strip (lower company_name);
          company_name' = (case map_of SYNONYMS name_lower of
                             Some canonical \<Rightarrow> canonical | None \<Rightarrow> company_name);
          headers = [(''User-Agent'', user_agent), (''Accept-Encoding'', ''gzip, deflate''),
                     (''Host'', ''www.sec.gov'')];
          url = ''https://www.sec.gov/files/company_tickers.json''
      in case requests_get url headers of
           ConnectionFailed \<Rightarrow> Inl RequestException
         | Response status b \<Rightarrow>
             if status \<noteq> 200 then Inr []
             else case b of
               None \<Rightarrow> Inl JSONDecodeError
             | Some data \<Rightarrow>
                 Inr (matched_tickers_loop (strip (upper company_name')) (map snd data) []))"

fun cik_loop :: "string \<Rightarrow> entity list \<Rightarrow> string" where
  "cik_loop t_upper [] = []"
| "cik_loop t_upper (info # rest) =
     (if upper (ticker info) = t_upper then ''CIK'' @ zfill 10 (str_int (cik_str info))
      else cik_loop t_upper rest)"

definition get_cik_from_ticker ::
  "(string \<Rightarrow> (string \<times> string) list \<Rightarrow> (string \<times> entity) list fetched) \<Rightarrow> string \<Rightarrow> string
     \<Rightarrow> exn + string" where
  "get_cik_from_ticker requests_get tick user_agent =
     (let headers = [(''User-Agent'', user_agent), (''Accept-Encoding'', ''gzip, deflate''),
                     (''Host'', ''www.sec.gov'')];
          url = ''https://www.sec.gov/files/company_tickers.json''
      in case requests_get url headers of
           ConnectionFailed \<Rightarrow> Inl RequestException
         | Response status b \<Rightarrow>
             if status \<noteq> 200 then Inr []
             else case b of
               None \<Rightarrow> Inl JSONDecodeError
             | Some data \<Rightarrow> Inr (cik_loop (strip (upper tick)) (map snd data)))"

text \<open>The decimal value of a digit string, to read an identifier back.\<close>

definition digits_value :: "string \<Rightarrow> int" where
  "digits_value s = foldl (\<lambda>a c. 10 * a + digit_val c) 0 s"

text \<open>The handler of the button \<^verbatim>\<open>Search (Company)\<close>, up to the session state it sets.\<close>

datatype ui_outcome = Ui_error string | Ui_warning string | Ui_matched "string list"

definition search_company ::
  "(string \<Rightarrow> (string \<times> string) list \<Rightarrow> (string \<times> entity) list fetched) \<Rightarrow> string \<Rightarrow> string
     \<Rightarrow> exn + ui_outcome" where
  "search_company requests_get user_agent input_company =
     (if user_agent = [] then Inr (Ui_error ''Please enter a valid User-Agent.'')
      else if strip input_company = [] then Inr (Ui_warning ''Please enter a company name.'')
      else case get_ticker_from_company_name requests_get input_company user_agent of
             Inl e \<Rightarrow> Inl e
           | Inr matched \<Rightarrow>
               if matched = []
               then Inr (Ui_error (''No matches found for '' @ [CHR 0x27] @ input_company @ [CHR 0x27] @ ''.''))
               else Inr (Ui_matched matched))"

section \<open>The yearly table: group, join, sort and scale\<close>

text \<open>
  The three modes of the page build the table with the same statements. A row of
  \<^verbatim>\<open>rev_list\<close> or \<^verbatim>\<open>ni_list\<close> is a pair of the year of the \<open>end\<close> date and the
  \<open>val\<close> of the record; here nothing catches what \<open>item["end"]\<close>, \<open>strptime\<close> or
  \<open>item["val"]\<close> raise.
\<close>

definition end_year :: "json \<Rightarrow> exn + int" where
  "end_year item =
     (case subscript item ''end'' of
        Inl e \<Rightarrow> Inl e
      | Inr (JStr e) \<Rightarrow> (case strptime e of None \<Rightarrow> Inl ValueError | Some d \<Rightarrow> Inr (year d))
      | Inr _ \<Rightarrow> Inl TypeError)"

fun year_rows :: "json list \<Rightarrow> exn + (int \<times> json) list" where
  "year_rows [] = Inr []"
| "year_rows (item # rest) =
     (case end_year item of
        Inl e \<Rightarrow> Inl e
      | Inr y \<Rightarrow>
          (case subscript item ''val'' of
             Inl e \<Rightarrow> Inl e
           | Inr v \<Rightarrow> (case year_rows rest of Inl e \<Rightarrow> Inl e | Inr rows \<Rightarrow> Inr ((y, v) # rows))))"

text \<open>
  The numeric column of a table whose values are all integers; the tables below are
  about such columns (amounts are exact integers, not 64-bit or floating-point ones).
\<close>

fun int_rows :: "(int \<times> json) list \<Rightarrow> (int \<times> int) list option" where
  "int_rows [] = Some []"
| "int_rows ((y, v) # rows) =
     (case v of
        JInt i \<Rightarrow> (case int_rows rows of None \<Rightarrow> None | Some r \<Rightarrow> Some ((y, i) # r))
      | _ \<Rightarrow> None)"

text \<open>
  \<^verbatim>\<open>pd.DataFrame(rows).groupby("Year", as_index=False).sum()\<close>: one row per year, the
  years ascending, the values of a year added. A frame made from an empty list has no
  column \<open>Year\<close>, and \<open>groupby\<close> raises KeyError.
\<close>

definition groupby_year_sum :: "(int \<times> int) list \<Rightarrow> exn + (int \<times> int) list" where
  "groupby_year_sum rows =
     (if rows = [] then Inl KeyError
      else Inr (map (\<lambda>y. (y, sum_list (map snd (filter (\<lambda>r. fst r = y) rows))))
                  (sort (remdups (map fst rows)))))"

text \<open>\<^verbatim>\<open>pd.merge(df_rev, df_ni, on="Year", how="inner")\<close>, in the order of the left keys.\<close>

definition merge_inner :: "(int \<times> int) list \<Rightarrow> (int \<times> int) list \<Rightarrow> (int \<times> int \<times> int) list" where
  "merge_inner df_rev df_ni =
     concat (map (\<lambda>(y, r). map (\<lambda>(y', n). (y, r, n)) (filter (\<lambda>(y', n). y' = y) df_ni)) df_rev)"

text \<open>\<^verbatim>\<open>sort_values("Year")\<close>.\<close>

definition sort_values_year :: "(int \<times> int \<times> int) list \<Rightarrow> (int \<times> int \<times> int) list" where
  "sort_values_year df = sort_key fst df"

definition df_combined :: "(int \<times> int) list \<Rightarrow> (int \<times> int) list \<Rightarrow> exn + (int \<times> int \<times> int) list" where
  "df_combined rev_list ni_list =
     (case groupby_year_sum rev_list of
        Inl e \<Rightarrow> Inl e
      | Inr df_rev \<Rightarrow>
          (case groupby_year_sum ni_list of
             Inl e \<Rightarrow> Inl e
           | Inr df_ni \<Rightarrow> Inr (sort_values_year (merge_inner df_rev df_ni))))"

text \<open>\<^verbatim>\<open>Series.max()\<close>; \<open>None\<close> is the NaN of an empty column.\<close>

definition series_max :: "int list \<Rightarrow> int option" where
  "series_max vs = (case vs of [] \<Rightarrow> None | v # rest \<Rightarrow> Some (fold max rest v))"

definition revenue_column :: "(int \<times> int \<times> int) list \<Rightarrow> int list" where
  "revenue_column df = map (\<lambda>(y, r, n). r) df"

definition net_income_column :: "(int \<times> int \<times> int) list \<Rightarrow> int list" where
  "net_income_column df = map (\<lambda>(y, r, n). n) df"

text \<open>
  \<^verbatim>\<open>max_val = max(df["Revenue"].max(), df["NetIncome"].max())\<close>, and the test
  \<^verbatim>\<open>max_val >= 1e12\<close>, which is false for NaN.
\<close>

definition max_val :: "(int \<times> int \<times> int) list \<Rightarrow> int option" where
  "max_val df =
     (case (series_max (revenue_column df), series_max (net_income_column df)) of
        (Some a, Some b) \<Rightarrow> Some (max a b)
      | _ \<Rightarrow> None)"

definition choose_unit :: "(int \<times> int \<times> int) list \<Rightarrow> int \<times> string" where
  "choose_unit df =
     (if (case max_val df of Some m \<Rightarrow> m \<ge> 10 ^ 12 | None \<Rightarrow> False)
      then (10 ^ 12, ''(in Trillions USD)'')
      else (10 ^ 9, ''(in Billions USD)''))"

text \<open>The table shown: both columns divided by the factor, and the two column names.\<close>

record shown_table =
  table_rows :: "(int \<times> rat \<times> rat) list"
  rv_col :: string
  ni_col :: string

definition scale_table :: "(int \<times> int \<times> int) list \<Rightarrow> shown_table" where
  "scale_table df =
     (let (factor, unit_label) = choose_unit df
      in \<lparr>table_rows = map (\<lambda>(y, r, n). (y, of_int r / of_int factor, of_int n / of_int factor)) df,
          rv_col = ''Revenue '' @ unit_label,
          ni_col = ''NetIncome '' @ unit_label\<rparr>)"

text \<open>The greatest absolute value of the two columns, which the code does not compute.\<close>

definition max_abs :: "(int \<times> int \<times> int) list \<Rightarrow> int" where
  "max_abs df = Max (abs ` (set (revenue_column df) \<union> set (net_income_column df)))"

section \<open>Properties of the yearly table\<close>

lemma filter_key_length:
  "distinct (map fst b) \<Longrightarrow> length (filter (\<lambda>(y', n). y' = y) b) = (if y \<in> fst ` set b then 1 else 0)"
proof (induction b)
  case Nil then show ?case by simp
next
  case (Cons p b)
  then show ?case by (cases p) (auto simp: image_iff)
qed

lemma merge_inner_years:
  assumes "distinct (map fst b)"
  shows "map fst (merge_inner a b) = filter (\<lambda>y. y \<in> fst ` set b) (map fst a)"
proof (induction a)
  case Nil then show ?case by (simp add: merge_inner_def)
next
  case (Cons p a)
  obtain y r where p: "p = (y, r)" by (cases p)
  have "map fst (map (\<lambda>(y', n). (y, r, n)) (filter (\<lambda>(y', n). y' = y) b))
          = replicate (length (filter (\<lambda>(y', n). y' = y) b)) y"
    by (induction b) auto
  also have "\<dots> = (if y \<in> fst ` set b then [y] else [])"
    using filter_key_length[OF assms, of y] by simp
  finally have h: "map fst (map (\<lambda>(y', n). (y, r, n)) (filter (\<lambda>(y', n). y' = y) b))
          = (if y \<in> fst ` set b then [y] else [])" .
  from Cons have IH: "map fst (merge_inner a b) = filter (\<lambda>y. y \<in> fst ` set b) (map fst a)" .
  have "merge_inner (p # a) b = map (\<lambda>(y', n). (y, r, n)) (filter (\<lambda>(y', n). y' = y) b) @ merge_inner a b"
    by (simp add: merge_inner_def p)
  then show ?case using h IH by (simp add: p)
qed

lemma groupby_years:
  "rows \<noteq> [] \<Longrightarrow> \<exists>df. groupby_year_sum rows = Inr df \<and> map fst df = sort (remdups (map fst rows))"
  by (simp add: groupby_year_sum_def comp_def)

text \<open>
  Claim C5. For every pair of non-empty yearly row lists, the combined table holds
  exactly the years that occur in both lists (an inner join on the year), each once,
  in ascending order. With revenue years 2020, 2021, 2022 and net-income years 2021,
  2022, 2023 the table has the years 2021 and 2022, in this order.
\<close>

theorem C5_combined_years:
  assumes "rev_list \<noteq> []" and "ni_list \<noteq> []"
  shows "\<exists>df. df_combined rev_list ni_list = Inr df \<and>
           map fst df = sorted_list_of_set (fst ` set rev_list \<inter> fst ` set ni_list)"
proof -
  obtain df_rev where r: "groupby_year_sum rev_list = Inr df_rev"
    and ry: "map fst df_rev = sort (remdups (map fst rev_list))"
    using groupby_years[OF assms(1)] by blast
  obtain df_ni where n: "groupby_year_sum ni_list = Inr df_ni"
    and ny: "map fst df_ni = sort (remdups (map fst ni_list))"
    using groupby_years[OF assms(2)] by blast
  have dn: "distinct (map fst df_ni)" by (simp add: ny)
  have sn: "fst ` set df_ni = fst ` set ni_list"
    using arg_cong[OF ny, of set] by simp
  let ?m = "merge_inner df_rev df_ni"
  have my: "map fst ?m = filter (\<lambda>y. y \<in> fst ` set ni_list) (sort (remdups (map fst rev_list)))"
    by (simp add: merge_inner_years[OF dn] sn ry)
  have "sorted (map (\<lambda>x. x) (filter (\<lambda>y. y \<in> fst ` set ni_list) (sort (remdups (map fst rev_list)))))"
    by (rule sorted_filter) simp
  then have so: "sorted (map fst ?m)" by (simp add: my)
  moreover have "distinct (map fst ?m)" by (simp add: my)
  moreover have "set (map fst ?m) = fst ` set rev_list \<inter> fst ` set ni_list"
    by (auto simp: my)
  ultimately have "map fst ?m = sorted_list_of_set (fst ` set rev_list \<inter> fst ` set ni_list)"
    by (metis sorted_list_of_set.idem_if_sorted_distinct)
  moreover have "sort_values_year ?m = ?m"
    unfolding sort_values_year_def using so by (rule sort_key_id_if_sorted)
  ultimately have "map fst (sort_values_year ?m) = sorted_list_of_set (fst ` set rev_list \<inter> fst ` set ni_list)"
    by simp
  then show ?thesis by (simp add: df_combined_def r n)
qed

text \<open>The example of the specification, obtained from the theorem.\<close>

theorem C5_combined_years_witness:
  "[(2020, 10), (2021, 11), (2022, 12)] \<noteq> ([] :: (int \<times> int) list) \<and>
   [(2021, 1), (2022, 2), (2023, 3)] \<noteq> ([] :: (int \<times> int) list) \<and>
   (\<exists>df. df_combined [(2020, 10), (2021, 11), (2022, 12)] [(2021, 1), (2022, 2), (2023, 3)] = Inr df \<and>
      map fst df = [2021, 2022])"
proof -
  have s: "sorted_list_of_set (fst ` set [(2020, 10), (2021, 11), (2022, 12 :: int)] \<inter>
             fst ` set [(2021, 1), (2022, 2), (2023, 3 :: int)]) = [2021, 2022 :: int]"
    by code_simp
  show ?thesis
    using C5_combined_years[of "[(2020, 10), (2021, 11), (2022, 12)]" "[(2021, 1), (2022, 2), (2023, 3)]"]
    unfolding s by simp
qed

section \<open>Properties of \<^verbatim>\<open>get_financial_data\<close>\<close>

lemma dedup_loop_first_seen:
  "int (length u) < fc \<Longrightarrow> dedup_loop xs u S fc = u @ take (nat fc - length u) (first_seen S xs)"
proof (induction xs arbitrary: u S)
  case Nil
  then show ?case by simp
next
  case (Cons x xs)
  show ?case
  proof (cases "start_end x \<in> S")
    case True
    with Cons show ?thesis by (simp add: start_end_def Let_def)
  next
    case False
    show ?thesis
    proof (cases "int (length u) + 1 = fc")
      case True
      then have "nat fc - length u = Suc 0" by linarith
      with True False show ?thesis by (simp add: start_end_def Let_def)
    next
      case F2: False
      with Cons.prems have lt: "int (length (u @ [x])) < fc" by simp
      have "nat fc - length u = Suc (nat fc - length (u @ [x]))" using lt by simp
      with Cons.IH[OF lt] False F2 show ?thesis by (simp add: start_end_def Let_def)
    qed
  qed
qed


lemma first_seen_keys: "start_end ` set (first_seen S xs) = start_end ` set xs - S"
  by (induction xs arbitrary: S) auto

lemma first_seen_distinct: "distinct (map start_end (first_seen S xs))"
proof (induction xs arbitrary: S)
  case Nil then show ?case by simp
next
  case (Cons x xs)
  have "start_end x \<notin> start_end ` set (first_seen (insert (start_end x) S) xs)"
    by (simp add: first_seen_keys)
  with Cons show ?case by simp
qed

lemma first_seen_length: "length (first_seen S xs) = card (start_end ` set xs - S)"
proof -
  have "length (first_seen S xs) = length (map start_end (first_seen S xs))" by simp
  also have "\<dots> = card (set (map start_end (first_seen S xs)))"
    using first_seen_distinct by (metis distinct_card)
  also have "\<dots> = card (start_end ` set xs - S)" by (simp add: first_seen_keys)
  finally show ?thesis .
qed



lemma sorted_reverse_set: "set (sorted_reverse f xs) = set xs"
  by (simp add: sorted_reverse_def)

lemma sorted_reverse_length: "length (sorted_reverse f xs) = length xs"
  by (simp add: sorted_reverse_def)


lemma slice_to_all: "int (length xs) \<le> k \<Longrightarrow> slice_to k xs = xs"
  by (simp add: slice_to_def)

lemma ten_k_units_filter:
  "list_all is_dict us \<Longrightarrow> ten_k_units us = Inr (filter admitted us)"
  by (induction us) (auto simp: is_dict_def split: json.splits)

lemma ten_k_units_Inr:
  "ten_k_units us = Inr r \<Longrightarrow> list_all is_dict us \<and> r = filter admitted us"
proof (induction us arbitrary: r)
  case Nil then show ?case by simp
next
  case (Cons u us)
  then show ?case
    by (cases u) (auto simp: is_dict_def split: if_splits sum.splits)
qed

lemma ten_k_units_all:
  "ten_k_units us = Inr us \<Longrightarrow> list_all is_dict us \<and> list_all admitted us"
proof -
  assume a: "ten_k_units us = Inr us"
  from ten_k_units_Inr[OF a] have d: "list_all is_dict us" and f: "us = filter admitted us" by auto
  have "list_all admitted (filter admitted us)" by (simp add: list_all_iff)
  with f d show ?thesis by simp
qed

lemma dedup_loop_start:
  "1 \<le> fc \<Longrightarrow> dedup_loop xs [] {} fc = take (nat fc) (first_seen {} xs)"
  using dedup_loop_first_seen[of "[]" fc xs "{}"] by simp



lemma get_financial_data_usd_document:
  "get_financial_data (serve (Response 200 (Some (usd_document us)))) cik c ua f n
     = from_units c (JArr us) f n"
  by (simp add: get_financial_data_def usd_document_def subscript_def serve_def)

text \<open>
  Claim C1, as amended. When the filter admits all N facts of a non-empty list and
  \<open>final_count\<close> is at least 1, the function returns exactly min(K', final_count) records,
  where K' is the number of distinct (start, end) pairs among the first \<open>fetch_count\<close>
  facts in descending order of \<open>end\<close>; when N is at most \<open>fetch_count\<close>, K' is the number
  K of distinct pairs of the whole list.
\<close>

theorem C1_record_count:
  assumes "ten_k_units us = Inr us" and "us \<noteq> []" and "1 \<le> final_count"
  shows "\<exists>recs. get_financial_data (serve (Response 200 (Some (usd_document us))))
                  cik concept ua fetch_count final_count = Inr (Some recs, None) \<and>
           length recs = min (card (start_end ` set (slice_to fetch_count (sorted_reverse end_key us))))
                             (nat final_count) \<and>
           (int (length us) \<le> fetch_count \<longrightarrow>
              length recs = min (card (start_end ` set us)) (nat final_count))"
proof -
  let ?sl = "slice_to fetch_count (sorted_reverse end_key us)"
  let ?recs = "take (nat final_count) (first_seen {} ?sl)"
  have "from_units concept (JArr us) fetch_count final_count = Inr (Some ?recs, None)"
    using assms by (simp add: from_units_def truthy_def Let_def dedup_loop_start)
  then have g: "get_financial_data (serve (Response 200 (Some (usd_document us))))
                  cik concept ua fetch_count final_count = Inr (Some ?recs, None)"
    by (simp add: get_financial_data_usd_document)
  have l: "length ?recs = min (card (start_end ` set ?sl)) (nat final_count)"
    by (simp add: first_seen_length min.commute)
  have "int (length us) \<le> fetch_count \<Longrightarrow> set ?sl = set us"
    by (simp add: slice_to_all sorted_reverse_length sorted_reverse_set)
  with g l show ?thesis by auto
qed

text \<open>Three facts with two distinct pairs, default counts: two records.\<close>

theorem C1_record_count_witness:
  "ten_k_units three_facts = Inr three_facts \<and> three_facts \<noteq> [] \<and> (1::int) \<le> 10 \<and>
   int (length three_facts) \<le> 30 \<and>
   (\<exists>recs. get_financial_data (serve (Response 200 (Some (usd_document three_facts))))
              ''CIK0000320193'' ''NetIncomeLoss'' ''ua'' 30 10 = Inr (Some recs, None) \<and>
            length recs = 2)"
proof -
  have a: "ten_k_units three_facts = Inr three_facts" by code_simp
  have b: "three_facts \<noteq> []" by code_simp
  have c: "int (length three_facts) \<le> 30" by code_simp
  have k: "card (start_end ` set three_facts) = 2" by code_simp
  show ?thesis
    using C1_record_count[OF a b, of 10 "''CIK0000320193''" "''NetIncomeLoss''" "''ua''" 30] a b c k
    by auto
qed

text \<open>
  The claim as stated fails with the default counts: of 31 admitted facts, the 30 most
  recent share one pair and the oldest has another, so K = 2 < N = 31, and the function
  returns one record, not min(2, 10) = 2: the slice to \<open>fetch_count\<close> comes before the
  deduplication.
\<close>

theorem C1_counterexample:
  "ten_k_units thirty_one_facts = Inr thirty_one_facts \<and> length thirty_one_facts = 31 \<and>
   card (start_end ` set thirty_one_facts) = 2 \<and>
   get_financial_data (serve (Response 200 (Some (usd_document thirty_one_facts))))
     ''CIK0000320193'' ''NetIncomeLoss'' ''ua'' 30 10
     = Inr (Some [annual_fact ''2022-01-01'' ''2022-12-31'' 7], None) \<and>
   length [annual_fact ''2022-01-01'' ''2022-12-31'' 7] \<noteq> min 2 (nat 10)"
proof -
  have a: "ten_k_units thirty_one_facts = Inr thirty_one_facts" by code_simp
  have b: "length thirty_one_facts = 31" by code_simp
  have c: "card (start_end ` set thirty_one_facts) = 2" by code_simp
  have d: "get_financial_data (serve (Response 200 (Some (usd_document thirty_one_facts))))
     ''CIK0000320193'' ''NetIncomeLoss'' ''ua'' 30 10
     = Inr (Some [annual_fact ''2022-01-01'' ''2022-12-31'' 7], None)" by code_simp
  from a b c d show ?thesis by simp
qed





end
